theory Spec2Isabelle
  imports Complex_Main
begin

section \<open>Values, exceptions and the input stream\<close>

text \<open>
  The program is Python 3 (PlotData.py). Strings are sequences of code points below 256.
  A float is the number its decimal text denotes, or one of the three special values that
  \<^verbatim>\<open>float()\<close> accepts by name; the rounding of a decimal to the nearest binary double is
  not modelled.
\<close>

datatype pyfloat = Fin rat | PInf | NInf | NaN

datatype pyexc =
    ValueError string
  | KeyError string
  | NameError string
  | UnboundLocalError string
  | IndexError
  | ZeroDivisionError
  | UnsupportedOperation
  | SyntaxError
  | Unsupported

text \<open>
  A seekable text stream: its whole content, as the text the bytes decode to, and the
  read position. On such a stream \<^verbatim>\<open>fp.tell()\<close> reads the position, \<^verbatim>\<open>fp.seek(n)\<close> sets
  it and \<^verbatim>\<open>fp.readline()\<close> returns the text up to and including the next newline (the
  rest of the content when there is none, the empty string at the end) and advances past
  it. A stream that cannot seek is a \<open>file_object\<close> of its own kind, further down; a file
  whose bytes do not decode, on which \<^verbatim>\<open>readline\<close> raises UnicodeDecodeError, is not
  modelled.
\<close>

record stream =
  content :: string
  pos :: nat

definition tell :: "stream \<Rightarrow> nat" where
  "tell fp = pos fp"

definition seek :: "stream \<Rightarrow> nat \<Rightarrow> stream" where
  "seek fp n = fp\<lparr>pos := n\<rparr>"

fun upto_newline :: "string \<Rightarrow> string" where
  "upto_newline [] = []"
| "upto_newline (c # cs) = (if c = CHR 0x0A then [c] else c # upto_newline cs)"

definition readline :: "stream \<Rightarrow> string \<times> stream" where
  "readline fp =
     (let line = upto_newline (drop (pos fp) (content fp))
      in (line, fp\<lparr>pos := pos fp + length line\<rparr>))"

section \<open>The string functions the reader calls\<close>

text \<open>
  \<^verbatim>\<open>str.strip()\<close> and \<^verbatim>\<open>str.split()\<close> without arguments work on Python's whitespace:
  below 256 these are the code points 9 to 13, 28 to 32, 133 and 160.
\<close>

definition py_isspace :: "char \<Rightarrow> bool" where
  "py_isspace c =
     (let n = (of_char c :: nat)
      in (9 \<le> n \<and> n \<le> 13) \<or> (28 \<le> n \<and> n \<le> 32) \<or> n = 133 \<or> n = 160)"

definition strip :: "string \<Rightarrow> string" where
  "strip s = rev (dropWhile py_isspace (rev (dropWhile py_isspace s)))"

fun split_acc :: "string \<Rightarrow> string \<Rightarrow> string list" where
  "split_acc w [] = (if w = [] then [] else [w])"
| "split_acc w (c # cs) =
     (if py_isspace c then (if w = [] then split_acc [] cs else w # split_acc [] cs)
      else split_acc (w @ [c]) cs)"

definition split :: "string \<Rightarrow> string list" where
  "split s = split_acc [] s"

definition startswith :: "string \<Rightarrow> string \<Rightarrow> bool" where
  "startswith s p = (take (length p) s = p)"

subsection \<open>\<^verbatim>\<open>float(s)\<close>\<close>

text \<open>
  \<^verbatim>\<open>float\<close> accepts an optional sign followed by \<^verbatim>\<open>inf\<close>, \<^verbatim>\<open>infinity\<close> or \<^verbatim>\<open>nan\<close> in any
  letter case, or by a decimal number: digits with an optional point (at least one digit
  in all) and an optional exponent \<^verbatim>\<open>e\<close> or \<^verbatim>\<open>E\<close>, optional sign, digits. Since Python 3.6
  single underscores may stand between two digits. Anything else raises ValueError; the
  model returns None there.
\<close>

definition is_digit :: "char \<Rightarrow> bool" where
  "is_digit c = (let n = (of_char c :: nat) in 48 \<le> n \<and> n \<le> 57)"

definition digit_val :: "char \<Rightarrow> nat" where
  "digit_val c = of_char c - 48"

definition nat_of_digits :: "string \<Rightarrow> nat" where
  "nat_of_digits ds = foldl (\<lambda>n c. 10 * n + digit_val c) 0 ds"

definition lower :: "char \<Rightarrow> char" where
  "lower c = (let n = (of_char c :: nat) in if 65 \<le> n \<and> n \<le> 90 then char_of (n + 32) else c)"

fun underscores_ok :: "char \<Rightarrow> string \<Rightarrow> bool" where
  "underscores_ok prev [] = (prev \<noteq> CHR ''_'')"
| "underscores_ok prev (c # cs) =
     (if c = CHR ''_'' then is_digit prev \<and> underscores_ok c cs
      else (prev = CHR ''_'' \<longrightarrow> is_digit c) \<and> underscores_ok c cs)"

definition scale10 :: "int \<Rightarrow> int \<Rightarrow> rat" where
  "scale10 m e = (if 0 \<le> e then of_int (m * 10 ^ nat e) else of_int m / of_int (10 ^ nat (- e)))"

definition split_sign :: "string \<Rightarrow> bool \<times> string" where
  "split_sign s =
     (case s of
        c # cs \<Rightarrow> if c = CHR ''-'' then (True, cs) else if c = CHR ''+'' then (False, cs) else (False, s)
      | [] \<Rightarrow> (False, s))"

definition parse_exponent :: "string \<Rightarrow> int option" where
  "parse_exponent s =
     (case s of
        [] \<Rightarrow> Some 0
      | c # cs \<Rightarrow>
          if c = CHR ''e'' \<or> c = CHR ''E'' then
            (let (neg, ds) = split_sign cs
             in if ds \<noteq> [] \<and> list_all is_digit ds
                then Some (if neg then - int (nat_of_digits ds) else int (nat_of_digits ds))
                else None)
          else None)"

definition parse_decimal :: "string \<Rightarrow> rat option" where
  "parse_decimal s =
     (let ip = takeWhile is_digit s;
          r1 = dropWhile is_digit s;
          (fp, r2) = (case r1 of
                        c # cs \<Rightarrow> if c = CHR ''.'' then (takeWhile is_digit cs, dropWhile is_digit cs)
                                  else ([], r1)
                      | [] \<Rightarrow> ([], r1))
      in if ip = [] \<and> fp = [] then None
         else (case parse_exponent r2 of
                 None \<Rightarrow> None
               | Some e \<Rightarrow> Some (scale10 (int (nat_of_digits (ip @ fp))) (e - int (length fp)))))"

definition float_py :: "string \<Rightarrow> pyfloat option" where
  "float_py s =
     (if \<not> underscores_ok (CHR 0x00) s then None
      else
        (let (neg, body) = split_sign (filter (\<lambda>c. c \<noteq> CHR ''_'') s);
             low = map lower body
         in if low = ''inf'' \<or> low = ''infinity'' then Some (if neg then NInf else PInf)
            else if low = ''nan'' then Some NaN
            else (case parse_decimal body of
                    None \<Rightarrow> None
                  | Some q \<Rightarrow> Some (Fin (if neg then - q else q)))))"

text \<open>
  The list comprehension \<^verbatim>\<open>[ float(s) for s in line.split() ]\<close>: the floats of all tokens,
  or None as soon as one token raises.
\<close>

fun floats :: "string list \<Rightarrow> pyfloat list option" where
  "floats [] = Some []"
| "floats (t # ts) =
     (case float_py t of
        None \<Rightarrow> None
      | Some x \<Rightarrow> (case floats ts of None \<Rightarrow> None | Some xs \<Rightarrow> Some (x # xs)))"

subsection \<open>\<^verbatim>\<open>shlex.split(s)\<close>\<close>

text \<open>
  \<^verbatim>\<open>shlex.split\<close> runs the standard library's lexer in POSIX mode with
  \<^verbatim>\<open>whitespace_split\<close> set and no comment characters. The function below is the loop of
  \<^verbatim>\<open>shlex.read_token\<close> with these settings, run over the whole text: \<open>state\<close> is the lexer
  state (a blank between words, \<^verbatim>\<open>a\<close> inside a word, a quote character inside a quoted
  part, the backslash after an escape), \<open>escapedstate\<close> is the state an escape returns to,
  \<open>quoted\<close> and \<open>token\<close> are the flag and the text of the token being read.
\<close>

definition shlex_whitespace :: "char \<Rightarrow> bool" where
  "shlex_whitespace c = (c = CHR '' '' \<or> c = CHR 0x09 \<or> c = CHR 0x0D \<or> c = CHR 0x0A)"

definition shlex_quote :: "char \<Rightarrow> bool" where
  "shlex_quote c = (c = CHR 0x27 \<or> c = CHR 0x22)"

definition emit :: "bool \<Rightarrow> string \<Rightarrow> pyexc + string list \<Rightarrow> pyexc + string list" where
  "emit quoted token rest =
     (case rest of
        Inl e \<Rightarrow> Inl e
      | Inr ts \<Rightarrow> Inr (if \<not> quoted \<and> token = [] then ts else token # ts))"

fun read_tokens :: "char \<Rightarrow> char \<Rightarrow> bool \<Rightarrow> string \<Rightarrow> string \<Rightarrow> pyexc + string list" where
  "read_tokens state escapedstate quoted token [] =
     (if state = CHR '' '' then emit quoted token (Inr [])
      else if shlex_quote state then Inl (ValueError ''No closing quotation'')
      else if state = CHR 0x5C then Inl (ValueError ''No escaped character'')
      else emit quoted token (Inr []))"
| "read_tokens state escapedstate quoted token (nextchar # cs) =
     (if state = CHR '' '' then
        (if shlex_whitespace nextchar then
           (if token \<noteq> [] \<or> quoted
            then emit quoted token (read_tokens (CHR '' '') (CHR '' '') False [] cs)
            else read_tokens state escapedstate quoted token cs)
         else if nextchar = CHR 0x5C then read_tokens nextchar (CHR ''a'') quoted token cs
         else if shlex_quote nextchar then read_tokens nextchar escapedstate quoted token cs
         else read_tokens (CHR ''a'') escapedstate quoted [nextchar] cs)
      else if shlex_quote state then
        (if nextchar = state then read_tokens (CHR ''a'') escapedstate True token cs
         else if nextchar = CHR 0x5C \<and> state = CHR 0x22
           then read_tokens nextchar state True token cs
         else read_tokens state escapedstate True (token @ [nextchar]) cs)
      else if state = CHR 0x5C then
        (if shlex_quote escapedstate \<and> nextchar \<noteq> state \<and> nextchar \<noteq> escapedstate
         then read_tokens escapedstate escapedstate quoted (token @ [state] @ [nextchar]) cs
         else read_tokens escapedstate escapedstate quoted (token @ [nextchar]) cs)
      else
        (if shlex_whitespace nextchar then
           (if token \<noteq> [] \<or> quoted
            then emit quoted token (read_tokens (CHR '' '') (CHR '' '') False [] cs)
            else read_tokens (CHR '' '') escapedstate quoted token cs)
         else if shlex_quote nextchar then read_tokens nextchar escapedstate quoted token cs
         else if nextchar = CHR 0x5C then read_tokens nextchar (CHR ''a'') quoted token cs
         else read_tokens state escapedstate quoted (token @ [nextchar]) cs))"

definition shlex_split :: "string \<Rightarrow> pyexc + string list" where
  "shlex_split s = read_tokens (CHR '' '') (CHR '' '') False [] s"

lemma readline_content [simp]: "content (snd (readline fp)) = content fp"
  by (simp add: readline_def Let_def)

lemma readline_pos [simp]: "pos (snd (readline fp)) = pos fp + length (fst (readline fp))"
  by (simp add: readline_def Let_def)

lemma readline_measure:
  "length (content (snd (readline fp))) - pos (snd (readline fp))
     + (if fst (readline fp) = [] then 0 else 1)
   < length (content fp) - pos fp + 1"
proof (cases "fst (readline fp) = []")
  case True
  then show ?thesis by simp
next
  case False
  then have "drop (pos fp) (content fp) \<noteq> []"
    by (auto simp: readline_def Let_def)
  then have "pos fp < length (content fp)" by simp
  with False show ?thesis by (simp add: length_greater_0_conv [symmetric] del: length_greater_0_conv) 
qed

section \<open>readfile\<close>

text \<open>
  The \<^verbatim>\<open>while line:\<close> loop of \<^verbatim>\<open>readfile\<close>. Its state is the stream, the position
  \<open>npos\<close> taken before the current line was read, the current line, and the comments
  and rows collected so far. It returns them with the stream as the loop leaves it.
\<close>

type_synonym row = "pyfloat list"

function read_loop ::
  "stream \<Rightarrow> nat \<Rightarrow> string \<Rightarrow> string list \<Rightarrow> row list \<Rightarrow> string list \<times> row list \<times> stream" where
  "read_loop fp npos line comments rows =
     (if line = [] then (comments, rows, fp)
      else if strip line = [] then (comments, rows, fp)
      else
        (case floats (split (strip line)) of
           Some r \<Rightarrow>
             read_loop (snd (readline fp)) (tell fp) (fst (readline fp)) comments (rows @ [r])
         | None \<Rightarrow>
             if rows = [] then
               read_loop (snd (readline fp)) (tell fp) (fst (readline fp))
                 (comments @ [strip line]) rows
             else (comments, rows, seek fp npos)))"
  by pat_completeness auto
termination
proof (relation "measure (\<lambda>(fp, npos, line, comments, rows).
          (length (content fp) - pos fp) + (if line = [] then 0 else 1))", goal_cases)
  case 1
  show ?case by simp
next
  case 2
  then show ?case using readline_measure by simp
next
  case 3
  then show ?case using readline_measure by simp
qed

text \<open>
  \<^verbatim>\<open>list( map(list, zip(*rows) ) )\<close>: \<^verbatim>\<open>zip\<close> stops at the shortest of its arguments, so
  the result has as many columns as the shortest row has entries.
\<close>

function zip_star :: "'a list list \<Rightarrow> 'a list list" where
  "zip_star rows =
     (if rows = [] \<or> [] \<in> set rows then []
      else map hd rows # zip_star (map tl rows))"
  by pat_completeness auto
termination
proof (relation "measure (\<lambda>rows. length (hd rows))", goal_cases)
  case 1
  show ?case by simp
next
  case (2 rows)
  then show ?case by (cases rows) auto
qed

declare read_loop.simps [simp del] zip_star.simps [simp del]

text \<open>
  \<^verbatim>\<open>readfile( fp )\<close> returns \<^verbatim>\<open>cols, comments, labels\<close>, or raises what
  \<^verbatim>\<open>shlex.split\<close> raises; the model also returns the stream as the call leaves it.
\<close>

definition rows_read :: "stream \<Rightarrow> row list" where
  "rows_read fp = fst (snd (read_loop (snd (readline fp)) (tell fp) (fst (readline fp)) [] []))"

definition label_text :: "string \<Rightarrow> string" where
  "label_text s0 =
     (let s = (if startswith s0 ''#'' then strip (drop 1 s0) else s0)
      in if startswith s ''labels'' then strip (drop 1 s) else s)"

definition readfile ::
  "stream \<Rightarrow> (pyexc + (row list \<times> string list \<times> string list)) \<times> stream" where
  "readfile fp =
     (let npos = tell fp;
          line = fst (readline fp);
          fp1 = snd (readline fp);
          (comments, rows, fp2) = read_loop fp1 npos line [] [];
          cols = (if rows \<noteq> [] then zip_star rows else [])
      in if comments \<noteq> [] then
           (case shlex_split (label_text (last comments)) of
              Inl e \<Rightarrow> (Inl e, fp2)
            | Inr labels \<Rightarrow> (Inr (cols, comments, labels), fp2))
         else (Inr (cols, comments, []), fp2))"

definition open_text :: "string \<Rightarrow> stream" where
  "open_text s = \<lparr>content = s, pos = 0\<rparr>"

text \<open>
  The script calls \<^verbatim>\<open>readfile( args.datafile )\<close>, and \<^verbatim>\<open>args.datafile\<close> is a file opened
  for reading or, by default, \<^verbatim>\<open>sys.stdin\<close>. A file object is either a seekable stream or
  one that cannot seek (a pipe or a terminal, with the text waiting in it). On the latter
  \<^verbatim>\<open>fp.tell()\<close> raises \<^verbatim>\<open>io.UnsupportedOperation\<close>. The call \<^verbatim>\<open>npos = fp.tell()\<close> is the first
  statement of \<^verbatim>\<open>readfile\<close> that touches the stream and stands outside any \<^verbatim>\<open>try\<close>, so the
  exception leaves \<^verbatim>\<open>readfile\<close> before a line is read.
\<close>

datatype file_object = Seekable stream | Unseekable string

definition tell_of :: "file_object \<Rightarrow> pyexc + nat" where
  "tell_of f = (case f of Seekable fp \<Rightarrow> Inr (tell fp) | Unseekable t \<Rightarrow> Inl UnsupportedOperation)"

definition readfile_of ::
  "file_object \<Rightarrow> pyexc + (row list \<times> string list \<times> string list)" where
  "readfile_of f =
     (case tell_of f of
        Inl e \<Rightarrow> Inl e
      | Inr npos \<Rightarrow>
          (case f of
             Seekable fp \<Rightarrow> fst (readfile fp)
           | Unseekable t \<Rightarrow> Inl UnsupportedOperation))"

section \<open>The script's use of the reader\<close>

text \<open>
  \<^verbatim>\<open>nrows = len(cols[0])\<close>: indexing an empty list raises IndexError.
\<close>

definition nrows :: "row list \<Rightarrow> pyexc + nat" where
  "nrows cols = (case cols of [] \<Rightarrow> Inl IndexError | c # _ \<Rightarrow> Inr (length c))"

text \<open>
  The dictionary \<^verbatim>\<open>data\<close> keeps its keys in insertion order (an OrderedDict before
  Python 3.6, the built-in dict from 3.6 on): an association list with distinct keys.
  \<^verbatim>\<open>data[k] = c\<close> replaces the value of a key that is present, in place, and appends a new
  key at the end.
\<close>

type_synonym table = "(string \<times> pyfloat list) list"

fun setitem :: "table \<Rightarrow> string \<Rightarrow> pyfloat list \<Rightarrow> table" where
  "setitem [] k c = [(k, c)]"
| "setitem ((k', c') # d) k c = (if k' = k then (k, c) # d else (k', c') # setitem d k c)"

function str_nat :: "nat \<Rightarrow> string" where
  "str_nat n = (if n < 10 then [char_of (48 + n)] else str_nat (n div 10) @ [char_of (48 + n mod 10)])"
  by pat_completeness auto
termination
  by (relation "measure id") auto

declare str_nat.simps [simp del]

fun set_columns :: "table \<Rightarrow> nat \<Rightarrow> row list \<Rightarrow> table" where
  "set_columns d n [] = d"
| "set_columns d n (c # cs) = set_columns (setitem d (''column'' @ str_nat n) c) (Suc n) cs"

fun set_labels :: "table \<Rightarrow> (string \<times> pyfloat list) list \<Rightarrow> table" where
  "set_labels d [] = d"
| "set_labels d ((l, c) # lcs) = set_labels (setitem d l c) lcs"

definition make_data :: "row list \<Rightarrow> string list \<Rightarrow> table" where
  "make_data cols labels = set_labels (set_columns [] 0 cols) (zip labels cols)"

section \<open>gety\<close>

text \<open>
  Values that names are bound to: a string, a Python list of floats (a column as the reader
  returns it), a one-dimensional numpy array of floats, a Python number, the dictionary
  itself, and an opaque object such as an imported module. A namespace maps names to values.

  \<^verbatim>\<open>exec\<close> is Python's built-in: given the code text, the globals and the locals it runs the
  code and either finishes or raises; it may rebind names in both namespaces. The resolver
  is modelled for every such function \<open>ex\<close>, which returns the exception raised (if any)
  and the two namespaces as the code left them.
\<close>

datatype pyval =
    Str string
  | Lst "pyfloat list"
  | Arr "pyfloat list"
  | Num rat
  | Tbl "(string \<times> pyfloat list) list"
  | Obj string

type_synonym namespace = "string \<Rightarrow> pyval option"

type_synonym exec_fn =
  "string \<Rightarrow> namespace \<Rightarrow> namespace \<Rightarrow> pyexc option \<times> namespace \<times> namespace"

text \<open>
  The frame of a call of \<^verbatim>\<open>gety\<close>. In Python 3 the names a function assigns are its local
  variables, kept in slots of the frame: here \<^verbatim>\<open>a_string\<close>, \<^verbatim>\<open>a_dict\<close>, \<^verbatim>\<open>y\<close>, \<^verbatim>\<open>key\<close> and
  \<^verbatim>\<open>val\<close>; a slot is unbound until the function assigns it. \<^verbatim>\<open>locals()\<close> returns the
  frame's dictionary after copying the slots into it: a bound slot is stored under its
  name, the name of an unbound slot is deleted; other entries stay. \<^verbatim>\<open>exec\<close> without
  namespace arguments runs in \<^verbatim>\<open>globals()\<close> and \<^verbatim>\<open>locals()\<close>. Code run by \<^verbatim>\<open>exec\<close> writes to
  the dictionaries it is given and never to the slots (CPython 3.0 to 3.12).
\<close>

record frame =
  a_string :: string
  a_dict :: table
  slot_y :: "pyval option"
  slot_key :: "string option"
  slot_val :: "pyfloat list option"
  f_locals :: namespace

definition fast_to_locals :: "frame \<Rightarrow> namespace" where
  "fast_to_locals fr =
     (f_locals fr)
       (''a_string'' := Some (Str (a_string fr)),
        ''a_dict'' := Some (Tbl (a_dict fr)),
        ''y'' := slot_y fr,
        ''key'' := map_option Str (slot_key fr),
        ''val'' := map_option Lst (slot_val fr))"

text \<open>
  The loop \<^verbatim>\<open>for key, val in a_dict.items(): try: exec( key + '= np.array(val)' )
  except: pass\<close>. Whatever \<^verbatim>\<open>exec\<close> raises is dropped.
\<close>

fun bind_keys :: "exec_fn \<Rightarrow> table \<Rightarrow> frame \<times> namespace \<Rightarrow> frame \<times> namespace" where
  "bind_keys ex [] (fr, G) = (fr, G)"
| "bind_keys ex ((k, v) # items) (fr, G) =
     (let fr1 = fr\<lparr>slot_key := Some k, slot_val := Some v\<rparr>;
          r = ex (k @ ''= np.array(val)'') G (fast_to_locals fr1)
      in bind_keys ex items (fr1\<lparr>f_locals := snd (snd r)\<rparr>, fst (snd r)))"

text \<open>
  \<^verbatim>\<open>return y\<close> reads the slot of the local variable \<^verbatim>\<open>y\<close>; reading an unbound slot raises
  UnboundLocalError.
\<close>

definition return_y :: "frame \<Rightarrow> pyexc + pyval" where
  "return_y fr = (case slot_y fr of None \<Rightarrow> Inl (UnboundLocalError ''y'') | Some v \<Rightarrow> Inr v)"

text \<open>
  The statement \<^verbatim>\<open>exec( 'y = '+a_string )\<close> of the branch for versions below 3.6 and the
  statement \<^verbatim>\<open>exec( 'y = '+a_string, locals(), globals() )\<close> of the other branch, whose
  second argument is the globals and whose third is the locals of the executed code. Both
  return the exception, the frame and the module namespace \<open>G\<close> afterwards.
\<close>

definition final_exec ::
  "exec_fn \<Rightarrow> bool \<Rightarrow> frame \<Rightarrow> namespace \<Rightarrow> pyexc option \<times> frame \<times> namespace" where
  "final_exec ex version_lt_36 fr G =
     (if version_lt_36 then
        (let r = ex (''y = '' @ a_string fr) G (fast_to_locals fr)
         in (fst r, fr\<lparr>f_locals := snd (snd r)\<rparr>, fst (snd r)))
      else
        (let r = ex (''y = '' @ a_string fr) (fast_to_locals fr) G
         in (fst r, fr\<lparr>f_locals := fst (snd r)\<rparr>, snd (snd r))))"

text \<open>
  \<^verbatim>\<open>gety( a_string, a_dict )\<close>, called with the module namespace \<open>G\<close>. The result is the
  value returned or the exception that leaves the call, and the module namespace after
  the call. \<open>version_lt_36\<close> is the test \<^verbatim>\<open>sys.version_info < (3,6)\<close>. The lookup
  \<^verbatim>\<open>a_dict[ a_string ]\<close> raises KeyError for a missing key, which the bare \<^verbatim>\<open>except\<close>
  drops; \<open>evaluate\<close> is the rest of the body up to the last \<^verbatim>\<open>exec\<close>.
\<close>

definition new_frame :: "string \<Rightarrow> table \<Rightarrow> frame" where
  "new_frame s d =
     \<lparr>a_string = s, a_dict = d, slot_y = None, slot_key = None, slot_val = None,
      f_locals = Map.empty\<rparr>"

definition evaluate ::
  "exec_fn \<Rightarrow> bool \<Rightarrow> string \<Rightarrow> table \<Rightarrow> namespace \<Rightarrow> pyexc option \<times> frame \<times> namespace" where
  "evaluate ex version_lt_36 s d G =
     (let b = bind_keys ex d (new_frame s d, G)
      in final_exec ex version_lt_36 (fst b) (snd b))"

definition gety ::
  "exec_fn \<Rightarrow> bool \<Rightarrow> string \<Rightarrow> table \<Rightarrow> namespace \<Rightarrow> (pyexc + pyval) \<times> namespace" where
  "gety ex version_lt_36 s d G =
     (case map_of d s of
        Some c \<Rightarrow> (return_y ((new_frame s d)\<lparr>slot_y := Some (Lst c)\<rparr>), G)
      | None \<Rightarrow>
          (let r = evaluate ex version_lt_36 s d G
           in case fst r of
                Some e \<Rightarrow> (Inl e, snd (snd r))
              | None \<Rightarrow> (return_y (fst (snd r)), snd (snd r))))"

section \<open>A reference \<^verbatim>\<open>exec\<close> for assignments of arithmetic expressions\<close>

text \<open>
  One function of type \<open>exec_fn\<close>, used to run the resolver on concrete inputs. It
  covers the statements \<^verbatim>\<open>NAME = expression\<close> whose expression is built from names,
  decimal literals, \<^verbatim>\<open>+ - * /\<close>, unary signs, parentheses and the call
  \<^verbatim>\<open>np.array(...)\<close>, over finite numbers and one-dimensional arrays. On any other text
  or value it answers \<open>Unsupported\<close>: the marker that this evaluator does not say what
  Python does there. It serves for closed instances only; the theorems about every
  expression hold for every function of type \<open>exec_fn\<close>.
\<close>

datatype token = TName string | TNum rat | TSym char

datatype lexmode = Idle | InName string | InInt string | InDot string | InFrac string string

definition py_keywords :: "string list" where
  "py_keywords =
     [''False'', ''None'', ''True'', ''and'', ''as'', ''assert'', ''async'', ''await'', ''break'',
      ''class'', ''continue'', ''def'', ''del'', ''elif'', ''else'', ''except'', ''finally'',
      ''for'', ''from'', ''global'', ''if'', ''import'', ''in'', ''is'', ''lambda'', ''nonlocal'',
      ''not'', ''or'', ''pass'', ''raise'', ''return'', ''try'', ''while'', ''with'', ''yield'']"

definition is_name_char :: "char \<Rightarrow> bool" where
  "is_name_char c =
     (let n = (of_char c :: nat)
      in (48 \<le> n \<and> n \<le> 57) \<or> (65 \<le> n \<and> n \<le> 90) \<or> (97 \<le> n \<and> n \<le> 122) \<or> n = 95)"

definition close_mode :: "lexmode \<Rightarrow> token list option" where
  "close_mode m =
     (case m of
        Idle \<Rightarrow> Some []
      | InName w \<Rightarrow> if w \<in> set py_keywords then None else Some [TName w]
      | InInt ds \<Rightarrow>
          if 1 < length ds \<and> hd ds = CHR ''0'' then None
          else Some [TNum (of_nat (nat_of_digits ds))]
      | InDot ds \<Rightarrow> None
      | InFrac ds fs \<Rightarrow> Some [TNum (scale10 (int (nat_of_digits (ds @ fs))) (- int (length fs)))])"

definition close_then :: "lexmode \<Rightarrow> token list \<Rightarrow> token list option \<Rightarrow> token list option" where
  "close_then m ts rest =
     (case close_mode m of
        None \<Rightarrow> None
      | Some t1 \<Rightarrow> (case rest of None \<Rightarrow> None | Some r \<Rightarrow> Some (t1 @ ts @ r)))"

fun tokenize :: "lexmode \<Rightarrow> string \<Rightarrow> token list option" where
  "tokenize m [] = close_mode m"
| "tokenize m (c # cs) =
     (if is_name_char c then
        (case m of
           Idle \<Rightarrow> if is_digit c then tokenize (InInt [c]) cs else tokenize (InName [c]) cs
         | InName w \<Rightarrow> tokenize (InName (w @ [c])) cs
         | InInt ds \<Rightarrow> if is_digit c then tokenize (InInt (ds @ [c])) cs else None
         | InDot ds \<Rightarrow> if is_digit c then tokenize (InFrac ds [c]) cs else None
         | InFrac ds fs \<Rightarrow> if is_digit c then tokenize (InFrac ds (fs @ [c])) cs else None)
      else if c = CHR ''.'' then
        (case m of
           InInt ds \<Rightarrow> tokenize (InDot ds) cs
         | InName w \<Rightarrow> close_then m [TSym c] (tokenize Idle cs)
         | _ \<Rightarrow> None)
      else if c = CHR '' '' \<or> c = CHR 0x09 then close_then m [] (tokenize Idle cs)
      else if c = CHR ''('' \<or> c = CHR '')'' then close_then m [TSym c] (tokenize Idle cs)
      else if c = CHR ''='' then
        (if take 1 cs = ''='' then None else close_then m [TSym c] (tokenize Idle cs))
      else if c = CHR ''+'' \<or> c = CHR ''-'' then
        (if take 1 cs = ''='' then None else close_then m [TSym c] (tokenize Idle cs))
      else if c = CHR ''*'' \<or> c = CHR ''/'' then
        (if take 1 cs = ''='' \<or> take 1 cs = [c] then None
         else close_then m [TSym c] (tokenize Idle cs))
      else None)"

datatype expr =
    EName string
  | ENum rat
  | ENeg expr
  | EPos expr
  | EBin char expr expr
  | ECall string string expr

text \<open>
  The parser, by recursive descent with the usual precedences: a sum of terms, a term of
  factors, a factor with its signs, an atom. \<open>parse\<close> is one function for the six
  parsing routines, selected by its second argument; the first argument bounds the depth
  of the descent, and \<open>parse_stmt\<close> supplies more than any token list can use.
\<close>

datatype routine = Sum | SumRest expr | Term | TermRest expr | Factor | Atom

definition head_sym :: "token list \<Rightarrow> char option" where
  "head_sym ts = (case ts of TSym c # _ \<Rightarrow> Some c | _ \<Rightarrow> None)"

definition no_trailer :: "token list \<Rightarrow> bool" where
  "no_trailer ts = (head_sym ts \<noteq> Some (CHR ''('') \<and> head_sym ts \<noteq> Some (CHR ''.''))"

definition closing ::
  "(expr \<Rightarrow> expr) \<Rightarrow> (expr \<times> token list) option \<Rightarrow> (expr \<times> token list) option" where
  "closing f res =
     (case res of
        None \<Rightarrow> None
      | Some (e, ts) \<Rightarrow>
          if head_sym ts = Some (CHR '')'') \<and> no_trailer (tl ts) then Some (f e, tl ts) else None)"

definition attr_call :: "token list \<Rightarrow> (string \<times> token list) option" where
  "attr_call ts =
     (case ts of
        TSym c1 # TName f # TSym c2 # r \<Rightarrow>
          if c1 = CHR ''.'' \<and> c2 = CHR ''('' then Some (f, r) else None
      | _ \<Rightarrow> None)"

definition atom_start ::
  "token list \<Rightarrow> (token list \<Rightarrow> (expr \<times> token list) option) \<Rightarrow> (expr \<times> token list) option" where
  "atom_start ts sub =
     (case ts of
        [] \<Rightarrow> None
      | TNum q # r \<Rightarrow> if no_trailer r then Some (ENum q, r) else None
      | TName x # r \<Rightarrow>
          if head_sym r = Some (CHR ''.'') then
            (case attr_call r of None \<Rightarrow> None | Some (f, r2) \<Rightarrow> closing (ECall x f) (sub r2))
          else if head_sym r = Some (CHR ''('') then None
          else Some (EName x, r)
      | TSym c # r \<Rightarrow> if c = CHR ''('' then closing (\<lambda>e. e) (sub r) else None)"

definition then_rest ::
  "(expr \<times> token list) option \<Rightarrow> (expr \<Rightarrow> token list \<Rightarrow> (expr \<times> token list) option)
     \<Rightarrow> (expr \<times> token list) option" where
  "then_rest res k = (case res of None \<Rightarrow> None | Some (e, ts) \<Rightarrow> k e ts)"

primrec parse :: "nat \<Rightarrow> routine \<Rightarrow> token list \<Rightarrow> (expr \<times> token list) option" where
  "parse 0 = (\<lambda>rt ts. None)"
| "parse (Suc n) = (\<lambda>rt ts.
     case rt of
       Sum \<Rightarrow> then_rest (parse n Term ts) (\<lambda>l r. parse n (SumRest l) r)
     | SumRest l \<Rightarrow>
         if head_sym ts = Some (CHR ''+'') \<or> head_sym ts = Some (CHR ''-'') then
           then_rest (parse n Term (tl ts))
             (\<lambda>e r. parse n (SumRest (EBin (the (head_sym ts)) l e)) r)
         else Some (l, ts)
     | Term \<Rightarrow> then_rest (parse n Factor ts) (\<lambda>l r. parse n (TermRest l) r)
     | TermRest l \<Rightarrow>
         if head_sym ts = Some (CHR ''*'') \<or> head_sym ts = Some (CHR ''/'') then
           then_rest (parse n Factor (tl ts))
             (\<lambda>e r. parse n (TermRest (EBin (the (head_sym ts)) l e)) r)
         else Some (l, ts)
     | Factor \<Rightarrow>
         if head_sym ts = Some (CHR ''-'') then
           then_rest (parse n Factor (tl ts)) (\<lambda>e r. Some (ENeg e, r))
         else if head_sym ts = Some (CHR ''+'') then
           then_rest (parse n Factor (tl ts)) (\<lambda>e r. Some (EPos e, r))
         else parse n Atom ts
     | Atom \<Rightarrow> atom_start ts (parse n Sum))"

definition parse_stmt :: "string \<Rightarrow> (string \<times> expr) option" where
  "parse_stmt code =
     (if take 1 code = '' '' \<or> take 1 code = [CHR 0x09] then None
      else
        (case tokenize Idle code of
           Some (TName x # TSym c # ts) \<Rightarrow>
             if c = CHR ''='' then
               (case parse (4 * length ts + 4) Sum ts of
                  Some (e, []) \<Rightarrow> Some (x, e)
                | _ \<Rightarrow> None)
             else None
         | _ \<Rightarrow> None))"

text \<open>
  A name is looked up in the locals, then in the globals, then among the built-ins. The
  built-in names are not modelled: for a name that is unbound in both namespaces the
  evaluator answers NameError only when the name cannot be a built-in (it starts with a
  lower-case letter and is not in the list below).
\<close>

definition builtin_names :: "string list" where
  "builtin_names =
     [''abs'', ''aiter'', ''all'', ''anext'', ''any'', ''ascii'', ''bin'', ''bool'', ''breakpoint'',
      ''bytearray'', ''bytes'', ''callable'', ''chr'', ''classmethod'', ''compile'', ''complex'',
      ''copyright'', ''credits'', ''delattr'', ''dict'', ''dir'', ''divmod'', ''enumerate'',
      ''eval'', ''exec'', ''exit'', ''filter'', ''float'', ''format'', ''frozenset'', ''getattr'',
      ''globals'', ''hasattr'', ''hash'', ''help'', ''hex'', ''id'', ''input'', ''int'',
      ''isinstance'', ''issubclass'', ''iter'', ''len'', ''license'', ''list'', ''locals'',
      ''map'', ''max'', ''memoryview'', ''min'', ''next'', ''object'', ''oct'', ''open'', ''ord'',
      ''pow'', ''print'', ''property'', ''quit'', ''range'', ''repr'', ''reversed'', ''round'',
      ''set'', ''setattr'', ''slice'', ''sorted'', ''staticmethod'', ''str'', ''sum'', ''super'',
      ''tuple'', ''type'', ''vars'', ''zip'']"

definition maybe_builtin :: "string \<Rightarrow> bool" where
  "maybe_builtin x =
     (case x of
        [] \<Rightarrow> True
      | c # _ \<Rightarrow> \<not> (97 \<le> (of_char c :: nat) \<and> (of_char c :: nat) \<le> 122) \<or> x \<in> set builtin_names)"

definition load_name :: "namespace \<Rightarrow> namespace \<Rightarrow> string \<Rightarrow> pyexc + pyval" where
  "load_name globs locs x =
     (case locs x of
        Some v \<Rightarrow> Inr v
      | None \<Rightarrow>
          (case globs x of
             Some v \<Rightarrow> Inr v
           | None \<Rightarrow> if maybe_builtin x then Inl Unsupported else Inl (NameError x)))"

fun fin_vals :: "pyfloat list \<Rightarrow> rat list option" where
  "fin_vals [] = Some []"
| "fin_vals (x # xs) =
     (case x of
        Fin q \<Rightarrow> (case fin_vals xs of None \<Rightarrow> None | Some qs \<Rightarrow> Some (q # qs))
      | _ \<Rightarrow> None)"

definition arith :: "char \<Rightarrow> rat \<Rightarrow> rat \<Rightarrow> rat" where
  "arith c a b =
     (if c = CHR ''+'' then a + b else if c = CHR ''-'' then a - b
      else if c = CHR ''*'' then a * b else a / b)"

text \<open>
  Elementwise arithmetic of numpy on one-dimensional operands: equal lengths, or one of
  them of length one, which is repeated; any other pair of lengths raises ValueError.
  Division by a zero element is left to \<open>Unsupported\<close>.
\<close>

definition broadcast :: "char \<Rightarrow> rat list \<Rightarrow> rat list \<Rightarrow> pyexc + pyval" where
  "broadcast c xs ys =
     (if c = CHR ''/'' \<and> 0 \<in> set ys then Inl Unsupported
      else if length xs = length ys then Inr (Arr (map Fin (map2 (arith c) xs ys)))
      else if length ys = 1 then Inr (Arr (map Fin (map (\<lambda>x. arith c x (hd ys)) xs)))
      else if length xs = 1 then Inr (Arr (map Fin (map (\<lambda>y. arith c (hd xs) y) ys)))
      else Inl (ValueError ''operands could not be broadcast together''))"

definition on_fin ::
  "pyfloat list \<Rightarrow> (rat list \<Rightarrow> pyexc + pyval) \<Rightarrow> pyexc + pyval" where
  "on_fin xs k = (case fin_vals xs of None \<Rightarrow> Inl Unsupported | Some qs \<Rightarrow> k qs)"

definition binop :: "char \<Rightarrow> pyval \<Rightarrow> pyval \<Rightarrow> pyexc + pyval" where
  "binop c u v =
     (case (u, v) of
        (Num a, Num b) \<Rightarrow>
          if c = CHR ''/'' \<and> b = 0 then Inl ZeroDivisionError else Inr (Num (arith c a b))
      | (Arr xs, Arr ys) \<Rightarrow> on_fin xs (\<lambda>p. on_fin ys (\<lambda>q. broadcast c p q))
      | (Arr xs, Num b) \<Rightarrow> on_fin xs (\<lambda>p. broadcast c p [b])
      | (Num a, Arr ys) \<Rightarrow> on_fin ys (\<lambda>q. broadcast c [a] q)
      | _ \<Rightarrow> Inl Unsupported)"

definition negative :: "pyval \<Rightarrow> pyexc + pyval" where
  "negative v =
     (case v of
        Num a \<Rightarrow> Inr (Num (- a))
      | Arr xs \<Rightarrow> on_fin xs (\<lambda>p. Inr (Arr (map Fin (map uminus p))))
      | _ \<Rightarrow> Inl Unsupported)"

definition positive :: "pyval \<Rightarrow> pyexc + pyval" where
  "positive v =
     (case v of
        Num a \<Rightarrow> Inr (Num a)
      | Arr xs \<Rightarrow> Inr (Arr xs)
      | _ \<Rightarrow> Inl Unsupported)"

definition np_array :: "pyval \<Rightarrow> pyexc + pyval" where
  "np_array v =
     (case v of
        Lst xs \<Rightarrow> Inr (Arr xs)
      | Arr xs \<Rightarrow> Inr (Arr xs)
      | _ \<Rightarrow> Inl Unsupported)"

definition and_then :: "pyexc + pyval \<Rightarrow> (pyval \<Rightarrow> pyexc + pyval) \<Rightarrow> pyexc + pyval" where
  "and_then r k = (case r of Inl e \<Rightarrow> Inl e | Inr v \<Rightarrow> k v)"

fun eval :: "namespace \<Rightarrow> namespace \<Rightarrow> expr \<Rightarrow> pyexc + pyval" where
  "eval globs locs (EName x) = load_name globs locs x"
| "eval globs locs (ENum q) = Inr (Num q)"
| "eval globs locs (ENeg e) = and_then (eval globs locs e) negative"
| "eval globs locs (EPos e) = and_then (eval globs locs e) positive"
| "eval globs locs (EBin c a b) =
     and_then (eval globs locs a) (\<lambda>u. and_then (eval globs locs b) (\<lambda>v. binop c u v))"
| "eval globs locs (ECall x f e) =
     and_then (load_name globs locs x)
       (\<lambda>m. if m = Obj ''numpy'' \<and> f = ''array''
            then and_then (eval globs locs e) np_array
            else Inl Unsupported)"

text \<open>
  When the evaluator meets a statement or a value it does not cover, it answers
  \<open>Unsupported\<close> and marks both namespaces under a name that no identifier can have; in
  a marked namespace it answers \<open>Unsupported\<close> for every later statement too. So after
  anything it does not cover, it claims nothing further.
\<close>

definition mark :: string where
  "mark = ''<unsupported>''"

definition give_up :: "namespace \<Rightarrow> namespace \<Rightarrow> pyexc option \<times> namespace \<times> namespace" where
  "give_up globs locs = (Some Unsupported, globs(mark \<mapsto> Obj mark), locs(mark \<mapsto> Obj mark))"

definition py_exec :: exec_fn where
  "py_exec code globs locs =
     (if globs mark \<noteq> None \<or> locs mark \<noteq> None then (Some Unsupported, globs, locs)
      else
        (case parse_stmt code of
           None \<Rightarrow> give_up globs locs
         | Some (x, e) \<Rightarrow>
             (case eval globs locs e of
                Inl err \<Rightarrow> if err = Unsupported then give_up globs locs else (Some err, globs, locs)
              | Inr v \<Rightarrow> (None, globs, locs(x \<mapsto> v)))))"

text \<open>
  A module namespace in which \<^verbatim>\<open>np\<close> is the numpy module, as after
  \<^verbatim>\<open>import numpy as np\<close>, and the table of the specification's Scenario C.
\<close>

definition module_ns :: namespace where
  "module_ns = [''np'' \<mapsto> Obj ''numpy'']"

definition scenario_C :: table where
  "scenario_C = [(''column0'', [Fin 1, Fin 2, Fin 3]), (''column1'', [Fin 4, Fin 5, Fin 6])]"

text \<open>
  The label rule as the specification words it: one leading \<^verbatim>\<open>#\<close> is removed, then the
  whole leading word \<^verbatim>\<open>labels\<close> (six characters), and the rest is tokenized.
\<close>

definition label_text_spec :: "string \<Rightarrow> string" where
  "label_text_spec s0 =
     (let s = (if startswith s0 ''#'' then strip (drop 1 s0) else s0)
      in if startswith s ''labels'' then strip (drop 6 s) else s)"

text \<open>
  Kinds of lines, as the loop of \<^verbatim>\<open>readfile\<close> tells them apart: a row line has text
  and all its tokens are floats, a text line has text and some token that is no float. A
  whole line ends with its only newline.
\<close>

definition is_row_line :: "string \<Rightarrow> bool" where
  "is_row_line l = (strip l \<noteq> [] \<and> floats (split (strip l)) \<noteq> None)"

definition is_text_line :: "string \<Rightarrow> bool" where
  "is_text_line l = (strip l \<noteq> [] \<and> floats (split (strip l)) = None)"

definition whole_line :: "string \<Rightarrow> bool" where
  "whole_line l = (l \<noteq> [] \<and> last l = CHR 0x0A \<and> CHR 0x0A \<notin> set (butlast l))"

definition comments_read :: "stream \<Rightarrow> string list" where
  "comments_read fp = fst (read_loop (snd (readline fp)) (tell fp) (fst (readline fp)) [] [])"

text \<open>
  Reading the next line and going round the loop once more (the last two statements of the
  loop body, and the two statements before the loop), and the row a row line stands for.
\<close>

definition next_line :: "stream \<Rightarrow> string list \<Rightarrow> row list \<Rightarrow> string list \<times> row list \<times> stream" where
  "next_line fp comments rows =
     read_loop (snd (readline fp)) (tell fp) (fst (readline fp)) comments rows"

definition row_of :: "string \<Rightarrow> row" where
  "row_of l = the (floats (split (strip l)))"

section \<open>The reader on the specification's scenarios\<close>

text \<open>
  C5 (Scenario A). On the stream \<^verbatim>\<open>"x y\n1.0 2.0\n3.0 4.0\n"\<close> the reader returns the
  columns \<^verbatim>\<open>[[1.0,3.0],[2.0,4.0]]\<close>, the comments \<^verbatim>\<open>["x y"]\<close> and the labels
  \<^verbatim>\<open>["x","y"]\<close>.
\<close>

theorem readfile_scenario_A:
  "fst (readfile (open_text (''x y'' @ [CHR 0x0A] @ ''1.0 2.0'' @ [CHR 0x0A] @ ''3.0 4.0'' @ [CHR 0x0A])))
   = Inr ([[Fin 1, Fin 3], [Fin 2, Fin 4]], [''x y''], [''x'', ''y''])"
  by code_simp

text \<open>
  C3. The claim says that the leading word \<^verbatim>\<open>labels\<close> is stripped from the last comment
  before it is tokenized. The source tests \<^verbatim>\<open>s.startswith('labels')\<close> and then drops one
  character, \<^verbatim>\<open>s[1:]\<close>, not six. On the stream \<^verbatim>\<open>"#labels a b\n1 2\n"\<close> the labels come out
  as \<^verbatim>\<open>["abels","a","b"]\<close>, where the rule as worded gives \<^verbatim>\<open>["a","b"]\<close>.
\<close>

theorem readfile_labels_word_kept:
  "fst (readfile (open_text (''#labels a b'' @ [CHR 0x0A] @ ''1 2'' @ [CHR 0x0A])))
     = Inr ([[Fin 1], [Fin 2]], [''#labels a b''], [''abels'', ''a'', ''b''])
   \<and> shlex_split (label_text_spec ''#labels a b'') = Inr [''a'', ''b'']"
  by code_simp

section \<open>The reader on every stream\<close>

lemma upto_newline_whole: "whole_line l \<Longrightarrow> upto_newline (l @ rest) = l"
proof (induction l)
  case Nil
  then show ?case by (simp add: whole_line_def)
next
  case (Cons c cs)
  show ?case
  proof (cases "cs = []")
    case True
    with Cons.prems show ?thesis by (simp add: whole_line_def)
  next
    case False
    with Cons.prems have "c \<noteq> CHR 0x0A" and "whole_line cs"
      by (auto simp: whole_line_def)
    with Cons.IH show ?thesis by simp
  qed
qed

lemma readline_whole:
  assumes "drop (pos fp) (content fp) = l @ rest" and "whole_line l"
  shows "fst (readline fp) = l"
    and "snd (readline fp) = fp\<lparr>pos := pos fp + length l\<rparr>"
    and "drop (pos fp + length l) (content fp) = rest"
proof -
  show 1: "fst (readline fp) = l"
    using assms by (simp add: readline_def Let_def upto_newline_whole)
  show "snd (readline fp) = fp\<lparr>pos := pos fp + length l\<rparr>"
    using assms by (simp add: readline_def Let_def upto_newline_whole)
  have "drop (length l) (drop (pos fp) (content fp)) = rest"
    using assms(1) by simp
  then show "drop (pos fp + length l) (content fp) = rest"
    by (simp add: add.commute)
qed

lemma read_loop_row:
  "is_row_line l \<Longrightarrow>
   read_loop fp npos l comments rows = next_line fp comments (rows @ [the (floats (split (strip l)))])"
  by (subst read_loop.simps) (auto simp: is_row_line_def next_line_def strip_def)

lemma read_loop_comment:
  "is_text_line l \<Longrightarrow>
   read_loop fp npos l comments [] = next_line fp (comments @ [strip l]) []"
  by (subst read_loop.simps) (auto simp: is_text_line_def next_line_def strip_def)

lemma read_loop_rewind:
  "is_text_line l \<Longrightarrow> rows \<noteq> [] \<Longrightarrow>
   read_loop fp npos l comments rows = (comments, rows, seek fp npos)"
  by (subst read_loop.simps) (auto simp: is_text_line_def strip_def)

lemma read_loop_stop:
  "\<not> is_text_line l \<Longrightarrow> \<not> is_row_line l \<Longrightarrow>
   read_loop fp npos l comments rows = (comments, rows, fp)"
  by (subst read_loop.simps) (auto simp: is_text_line_def is_row_line_def)


lemma next_line_rows:
  assumes "\<forall>l\<in>set rws. whole_line l \<and> is_row_line l"
    and "drop (pos fp) (content fp) = concat rws @ tail"
    and "rows \<noteq> [] \<or> rws \<noteq> []"
    and "\<not> is_row_line (upto_newline tail)"
  shows "next_line fp comments rows =
           (comments, rows @ map row_of rws,
            fp\<lparr>pos := pos fp + length (concat rws)
                    + (if is_text_line (upto_newline tail) then 0 else length (upto_newline tail))\<rparr>)"
  using assms
proof (induction rws arbitrary: fp rows)
  case Nil
  then have rd: "fst (readline fp) = upto_newline tail"
    "snd (readline fp) = fp\<lparr>pos := pos fp + length (upto_newline tail)\<rparr>"
    by (simp_all add: readline_def Let_def)
  show ?case
  proof (cases "is_text_line (upto_newline tail)")
    case True
    with Nil rd show ?thesis
      by (simp add: next_line_def read_loop_rewind seek_def tell_def)
  next
    case False
    with Nil rd show ?thesis
      by (simp add: next_line_def read_loop_stop)
  qed
next
  case (Cons l ls)
  from Cons.prems have l: "whole_line l" "is_row_line l"
    and split: "drop (pos fp) (content fp) = l @ (concat ls @ tail)"
    by simp_all
  note rd = readline_whole [OF split l(1)]
  let ?fp = "fp\<lparr>pos := pos fp + length l\<rparr>"
  have "next_line fp comments rows = next_line ?fp comments (rows @ [row_of l])"
    using l by (simp add: next_line_def read_loop_row row_of_def rd)
  also have "\<dots> = (comments, (rows @ [row_of l]) @ map row_of ls,
            ?fp\<lparr>pos := pos ?fp + length (concat ls)
                    + (if is_text_line (upto_newline tail) then 0 else length (upto_newline tail))\<rparr>)"
    using Cons.prems rd by (intro Cons.IH) simp_all
  finally show ?case by (simp add: add.assoc)
qed

lemma next_line_comments:
  assumes "\<forall>l\<in>set pre. whole_line l \<and> is_text_line l"
    and "drop (pos fp) (content fp) = concat pre @ rest"
  shows "next_line fp comments [] =
           next_line (fp\<lparr>pos := pos fp + length (concat pre)\<rparr>) (comments @ map strip pre) []"
  using assms
proof (induction pre arbitrary: fp comments)
  case Nil
  then show ?case by simp
next
  case (Cons l ls)
  from Cons.prems have l: "whole_line l" "is_text_line l"
    and split: "drop (pos fp) (content fp) = l @ (concat ls @ rest)"
    by simp_all
  note rd = readline_whole [OF split l(1)]
  let ?fp = "fp\<lparr>pos := pos fp + length l\<rparr>"
  have "next_line fp comments [] = next_line ?fp (comments @ [strip l]) []"
    using l by (simp add: next_line_def read_loop_comment rd)
  also have "\<dots> = next_line (?fp\<lparr>pos := pos ?fp + length (concat ls)\<rparr>)
                      ((comments @ [strip l]) @ map strip ls) []"
    using Cons.prems rd by (intro Cons.IH) simp_all
  finally show ?case by (simp add: add.assoc)
qed

lemma read_all:
  assumes hpre: "\<forall>l\<in>set pre. whole_line l \<and> is_text_line l"
    and hrws: "\<forall>l\<in>set rws. whole_line l \<and> is_row_line l" "rws \<noteq> []"
    and htxt: "drop (pos fp) (content fp) = concat pre @ concat rws @ tail"
    and hnxt: "\<not> is_row_line (upto_newline tail)"
  shows "next_line fp [] [] =
           (map strip pre, map row_of rws,
            fp\<lparr>pos := pos fp + length (concat pre) + length (concat rws)
                    + (if is_text_line (upto_newline tail) then 0 else length (upto_newline tail))\<rparr>)"
proof -
  let ?fp = "fp\<lparr>pos := pos fp + length (concat pre)\<rparr>"
  have "drop (length (concat pre)) (drop (pos fp) (content fp)) = concat rws @ tail"
    using htxt by simp
  then have d: "drop (pos ?fp) (content ?fp) = concat rws @ tail"
    by (simp add: add.commute)
  have "next_line fp [] [] = next_line ?fp ([] @ map strip pre) []"
    using hpre htxt by (rule next_line_comments)
  also have "\<dots> = (map strip pre, [] @ map row_of rws,
            ?fp\<lparr>pos := pos ?fp + length (concat rws)
                    + (if is_text_line (upto_newline tail) then 0 else length (upto_newline tail))\<rparr>)"
    using next_line_rows [OF hrws(1) d _ hnxt, of "[]" "map strip pre"] hrws(2) by simp
  finally show ?thesis by simp
qed

lemma readfile_stream: "snd (readfile fp) = snd (snd (next_line fp [] []))"
  by (simp add: readfile_def next_line_def Let_def split: prod.splits sum.splits)

lemma rows_read_next: "rows_read fp = fst (snd (next_line fp [] []))"
  by (simp add: rows_read_def next_line_def)

lemma zip_star_lengths: "c \<in> set (zip_star rows) \<Longrightarrow> length c = length rows"
proof (induction rows arbitrary: c rule: zip_star.induct)
  case (1 rows)
  show ?case
  proof (cases "rows = [] \<or> [] \<in> set rows")
    case True
    with "1.prems" show ?thesis by (simp add: zip_star.simps)
  next
    case False
    with "1.prems" have "c = map hd rows \<or> c \<in> set (zip_star (map tl rows))"
      by (subst (asm) zip_star.simps) auto
    then show ?thesis
    proof
      assume "c = map hd rows" then show ?thesis by simp
    next
      assume "c \<in> set (zip_star (map tl rows))"
      from "1.IH" [OF False this] show ?thesis by simp
    qed
  qed
qed

lemma readfile_cols:
  "fst (readfile fp) = Inr (cols, comments, labels) \<Longrightarrow>
   cols = (if rows_read fp \<noteq> [] then zip_star (rows_read fp) else [])"
  by (auto simp: readfile_def rows_read_def Let_def split: prod.splits sum.splits if_splits)

lemma readfile_raises_iff:
  "(fst (readfile fp) = Inl e) =
   (comments_read fp \<noteq> [] \<and> shlex_split (label_text (last (comments_read fp))) = Inl e)"
  by (auto simp: readfile_def comments_read_def Let_def split: prod.splits sum.splits if_splits)

lemma emit_Inl: "emit q tok r = Inl e \<Longrightarrow> r = Inl e"
  by (cases r) (simp_all add: emit_def)

lemma read_tokens_errors:
  "read_tokens st es q tok s = Inl e \<Longrightarrow>
   e = ValueError ''No closing quotation'' \<or> e = ValueError ''No escaped character''"
proof (induction s arbitrary: st es q tok)
  case Nil
  then show ?case by (simp add: emit_def split: if_splits)
next
  case (Cons c cs)
  from Cons.prems show ?case
    by (simp split: if_splits) (blast dest: emit_Inl Cons.IH)+
qed

text \<open>
  C2. Let the text from the read position on consist of text lines (the comments), then at
  least one row line, then anything whose first line is no row. If that first line has
  text, the reader stops with the stream positioned at its start, so that the next
  \<^verbatim>\<open>readline\<close> returns this very line. In every case the position ends no further than the
  end of that first line, and the rows read are exactly those of the row lines.
\<close>

theorem readfile_rewinds:
  assumes "\<forall>l\<in>set pre. whole_line l \<and> is_text_line l"
    and "\<forall>l\<in>set rws. whole_line l \<and> is_row_line l" and "rws \<noteq> []"
    and "drop (pos fp) (content fp) = concat pre @ concat rws @ tail"
    and "\<not> is_row_line (upto_newline tail)"
  shows "(is_text_line (upto_newline tail) \<longrightarrow>
            snd (readfile fp) = fp\<lparr>pos := pos fp + length (concat pre) + length (concat rws)\<rparr>
          \<and> fst (readline (snd (readfile fp))) = upto_newline tail)
       \<and> pos (snd (readfile fp))
           \<le> pos fp + length (concat pre) + length (concat rws) + length (upto_newline tail)
       \<and> rows_read fp = map row_of rws"
proof -
  note ra = read_all [OF assms]
  let ?fp = "fp\<lparr>pos := pos fp + length (concat pre) + length (concat rws)\<rparr>"
  have "drop (length (concat pre) + length (concat rws)) (drop (pos fp) (content fp)) = tail"
    using assms(4) by (simp add: drop_drop [symmetric] del: drop_drop)
  then have "drop (pos ?fp) (content ?fp) = tail"
    by (simp add: add.commute add.left_commute)
  then have "fst (readline ?fp) = upto_newline tail"
    by (simp add: readline_def Let_def)
  then show ?thesis
    using ra by (simp add: readfile_stream rows_read_next)
qed


theorem readfile_rewinds_witness:
  "whole_line (''1.0 2.0'' @ [CHR 0x0A]) \<and> is_row_line (''1.0 2.0'' @ [CHR 0x0A])
   \<and> is_text_line (''not a number'' @ [CHR 0x0A])
   \<and> snd (readfile (open_text (''1.0 2.0'' @ [CHR 0x0A] @ ''not a number'' @ [CHR 0x0A] @ ''3.0 4.0'' @ [CHR 0x0A])))
       = \<lparr>content = ''1.0 2.0'' @ [CHR 0x0A] @ ''not a number'' @ [CHR 0x0A] @ ''3.0 4.0'' @ [CHR 0x0A], pos = 8\<rparr>
   \<and> fst (readline (snd (readfile (open_text
         (''1.0 2.0'' @ [CHR 0x0A] @ ''not a number'' @ [CHR 0x0A] @ ''3.0 4.0'' @ [CHR 0x0A])))))
       = ''not a number'' @ [CHR 0x0A]"
proof -
  let ?fp = "open_text (''1.0 2.0'' @ [CHR 0x0A] @ ''not a number'' @ [CHR 0x0A] @ ''3.0 4.0'' @ [CHR 0x0A])"
  let ?tail = "''not a number'' @ [CHR 0x0A] @ ''3.0 4.0'' @ [CHR 0x0A]"
  have r: "whole_line (''1.0 2.0'' @ [CHR 0x0A])" "is_row_line (''1.0 2.0'' @ [CHR 0x0A])"
    by code_simp+
  have t: "is_text_line (''not a number'' @ [CHR 0x0A])"
    by code_simp
  have n: "upto_newline ?tail = ''not a number'' @ [CHR 0x0A]"
    by simp
  have h1: "\<forall>l\<in>set ([]::string list). whole_line l \<and> is_text_line l"
    by simp
  have h2: "\<forall>l\<in>set [''1.0 2.0'' @ [CHR 0x0A]]. whole_line l \<and> is_row_line l"
    using r by simp
  have h3: "[''1.0 2.0'' @ [CHR 0x0A]] \<noteq> []"
    by simp
  have h4: "drop (pos ?fp) (content ?fp) = concat [] @ concat [''1.0 2.0'' @ [CHR 0x0A]] @ ?tail"
    by (simp add: open_text_def)
  have h5: "\<not> is_row_line (upto_newline ?tail)"
    using t by (simp only: n) (simp add: is_text_line_def is_row_line_def)
  have tt: "is_text_line (upto_newline ?tail)"
    using t by (simp only: n)
  from readfile_rewinds [OF h1 h2 h3 h4 h5] tt
  have a: "snd (readfile ?fp)
             = ?fp\<lparr>pos := pos ?fp + length (concat ([]::string list))
                          + length (concat [''1.0 2.0'' @ [CHR 0x0A]])\<rparr>"
    and b: "fst (readline (snd (readfile ?fp))) = upto_newline ?tail"
    by blast+
  have c: "?fp\<lparr>pos := pos ?fp + length (concat ([]::string list))
                          + length (concat [''1.0 2.0'' @ [CHR 0x0A]])\<rparr>
             = \<lparr>content = ''1.0 2.0'' @ [CHR 0x0A] @ ''not a number'' @ [CHR 0x0A] @ ''3.0 4.0'' @ [CHR 0x0A],
                pos = 8\<rparr>"
    by (simp add: open_text_def)
  from a c have a': "snd (readfile ?fp)
             = \<lparr>content = ''1.0 2.0'' @ [CHR 0x0A] @ ''not a number'' @ [CHR 0x0A] @ ''3.0 4.0'' @ [CHR 0x0A],
                pos = 8\<rparr>"
    by (rule trans)
  from b n have b': "fst (readline (snd (readfile ?fp))) = ''not a number'' @ [CHR 0x0A]"
    by (rule trans)
  from r t a' b' show ?thesis
    by blast
qed

text \<open>
  C7. Every column the reader returns has as many entries as rows were read.
\<close>

theorem readfile_column_lengths:
  "fst (readfile fp) = Inr (cols, comments, labels) \<Longrightarrow>
   \<forall>c\<in>set cols. length c = length (rows_read fp)"
  using readfile_cols [of fp cols comments labels] by (auto simp: zip_star_lengths)

theorem readfile_column_lengths_witness:
  "fst (readfile (open_text (''1 2 3'' @ [CHR 0x0A] @ ''4 5'' @ [CHR 0x0A])))
     = Inr ([[Fin 1, Fin 4], [Fin 2, Fin 5]], [], [])
   \<and> length [Fin 1, Fin 4] = length (rows_read (open_text (''1 2 3'' @ [CHR 0x0A] @ ''4 5'' @ [CHR 0x0A])))
   \<and> length [Fin 2, Fin 5] = length (rows_read (open_text (''1 2 3'' @ [CHR 0x0A] @ ''4 5'' @ [CHR 0x0A])))"
proof -
  have h: "fst (readfile (open_text (''1 2 3'' @ [CHR 0x0A] @ ''4 5'' @ [CHR 0x0A])))
             = Inr ([[Fin 1, Fin 4], [Fin 2, Fin 5]], [], [])"
    by code_simp
  from readfile_column_lengths [OF h] h show ?thesis by simp
qed

text \<open>
  C6, as stated: the reader raises on no input. The last comment is handed to
  \<^verbatim>\<open>shlex.split\<close>, which raises ValueError on an unclosed quotation: a comment line with an
  apostrophe makes the reader raise.
\<close>

theorem readfile_raises_counterexample:
  "fst (readfile (open_text (''it'' @ [CHR 0x27] @ ''s my data'' @ [CHR 0x0A] @ ''1 2'' @ [CHR 0x0A])))
     = Inl (ValueError ''No closing quotation'')"
  by code_simp

lemma readfile_no_rows: "rows_read fp = [] \<Longrightarrow> fst (readfile fp) = Inr (cols, comments, labels) \<Longrightarrow> cols = []"
  using readfile_cols [of fp cols comments labels] by simp

lemma readfile_errors:
  assumes "fst (readfile fp) = Inl e"
  shows "e = ValueError ''No closing quotation'' \<or> e = ValueError ''No escaped character''"
proof -
  from assms have "shlex_split (label_text (last (comments_read fp))) = Inl e"
    by (simp add: readfile_raises_iff)
  then show ?thesis
    unfolding shlex_split_def by (rule read_tokens_errors)
qed

text \<open>
  C6, amended: on a stream that cannot seek the reader raises UnsupportedOperation
  before it reads anything. On a seekable stream it raises exactly when \<^verbatim>\<open>shlex.split\<close>
  raises on the label text of the last comment, and then it is one of the two ValueErrors
  of \<^verbatim>\<open>shlex\<close>; otherwise it returns. The empty seekable stream gives empty columns,
  comments and labels, and a seekable stream from which no row is read gives no columns.
\<close>

theorem readfile_raises_characterised:
  "readfile_of (Unseekable t) = Inl UnsupportedOperation
   \<and> (readfile_of (Seekable fp) = Inl e \<longleftrightarrow>
        comments_read fp \<noteq> [] \<and> shlex_split (label_text (last (comments_read fp))) = Inl e)
   \<and> (readfile_of (Seekable fp) = Inl e \<longrightarrow>
        e = ValueError ''No closing quotation'' \<or> e = ValueError ''No escaped character'')
   \<and> readfile_of (Seekable (open_text [])) = Inr ([], [], [])
   \<and> (rows_read fp = [] \<longrightarrow> readfile_of (Seekable fp) = Inr (cols, comments, labels) \<longrightarrow> cols = [])"
proof -
  have s: "readfile_of (Seekable fp) = fst (readfile fp)" for fp
    by (simp add: readfile_of_def tell_of_def)
  have "readfile_of (Unseekable t) = Inl UnsupportedOperation"
    by (simp add: readfile_of_def tell_of_def)
  moreover have "fst (readfile (open_text [])) = Inr ([], [], [])"
    by code_simp
  ultimately show ?thesis
    using readfile_raises_iff [of fp e] readfile_errors [of fp e]
      readfile_no_rows [of fp cols comments labels]
    by (simp only: s) blast
qed

theorem readfile_raises_characterised_witness:
  "rows_read (open_text (''# run 7'' @ [CHR 0x0A] @ ''# a b'' @ [CHR 0x0A])) = []
   \<and> readfile_of (Seekable (open_text (''# run 7'' @ [CHR 0x0A] @ ''# a b'' @ [CHR 0x0A])))
       = Inr ([], [''# run 7'', ''# a b''], [''a'', ''b''])
   \<and> comments_read (open_text (''a b'' @ [CHR 0x5C] @ [CHR 0x0A])) \<noteq> []
   \<and> readfile_of (Seekable (open_text (''a b'' @ [CHR 0x5C] @ [CHR 0x0A])))
       = Inl (ValueError ''No escaped character'')
   \<and> readfile_of (Unseekable (''1 2'' @ [CHR 0x0A])) = Inl UnsupportedOperation"
proof -
  let ?fp = "open_text (''# run 7'' @ [CHR 0x0A] @ ''# a b'' @ [CHR 0x0A])"
  let ?fq = "open_text (''a b'' @ [CHR 0x5C] @ [CHR 0x0A])"
  have h1: "rows_read ?fp = []"
    by code_simp
  have c: "readfile_of (Seekable ?fp) = Inr ([], [''# run 7'', ''# a b''], [''a'', ''b''])"
    by code_simp
  have h3: "comments_read ?fq \<noteq> []"
    by code_simp
  have h4: "shlex_split (label_text (last (comments_read ?fq))) = Inl (ValueError ''No escaped character'')"
    by code_simp
  from readfile_raises_characterised [of "''1 2'' @ [CHR 0x0A]" ?fp undefined "[]" "[''# run 7'', ''# a b'']" "[''a'', ''b'']"]
    h1 c have "([]::row list) = [] \<and> readfile_of (Unseekable (''1 2'' @ [CHR 0x0A])) = Inl UnsupportedOperation"
    by blast
  moreover from readfile_raises_characterised [of "[]" ?fq "ValueError ''No escaped character''" "[]" "[]" "[]"] h3 h4
  have "readfile_of (Seekable ?fq) = Inl (ValueError ''No escaped character'')" by blast
  ultimately show ?thesis using h1 c h3 by simp
qed

text \<open>
  C10, as stated: the code that takes the row count treats the empty table as a case of
  its own and fails with a clear message rather than an out-of-range fault. The script
  computes \<^verbatim>\<open>nrows = len(cols[0])\<close> right after the call of the reader; on the empty
  stream the reader returns no columns and the index raises IndexError.
\<close>

theorem nrows_empty_counterexample:
  "fst (readfile (open_text [])) = Inr ([], [], []) \<and> nrows [] = Inl IndexError"
  by code_simp

text \<open>
  C10, amended: when no row is read the reader returns no columns, and the row count of
  the script then raises IndexError.
\<close>

theorem nrows_without_rows:
  "rows_read fp = [] \<Longrightarrow> fst (readfile fp) = Inr (cols, comments, labels) \<Longrightarrow>
   cols = [] \<and> nrows cols = Inl IndexError"
  using readfile_cols [of fp cols comments labels] by (simp add: nrows_def)

theorem nrows_without_rows_witness:
  "rows_read (open_text (''# only text'' @ [CHR 0x0A])) = []
   \<and> fst (readfile (open_text (''# only text'' @ [CHR 0x0A]))) = Inr ([], [''# only text''], [''only'', ''text''])
   \<and> nrows [] = Inl IndexError"
proof -
  have h1: "rows_read (open_text (''# only text'' @ [CHR 0x0A])) = []"
    by code_simp
  have h2: "fst (readfile (open_text (''# only text'' @ [CHR 0x0A])))
              = Inr ([], [''# only text''], [''only'', ''text''])"
    by code_simp
  from nrows_without_rows [OF h1 h2] h1 h2 show ?thesis by simp
qed

section \<open>The resolver\<close>




text \<open>
  C1 (Scenario C). The claim says that resolving \<^verbatim>\<open>"column1 - column0"\<close> against the table
  \<^verbatim>\<open>{"column0": [1,2,3], "column1": [4,5,6]}\<close> returns \<^verbatim>\<open>[3,3,3]\<close>. In the source the
  expression is no key, the keys are bound as arrays, and the executed statement computes
  \<^verbatim>\<open>[3,3,3]\<close> and binds it to \<^verbatim>\<open>y\<close> in the namespace it was given (for Python 3.6 and
  later, the module namespace). The function's own variable \<^verbatim>\<open>y\<close>, assigned only by the
  lookup that failed, stays unbound, and \<^verbatim>\<open>return y\<close> raises UnboundLocalError. The same
  holds for the branch taken below version 3.6.
\<close>

theorem gety_scenario_C_raises:
  "fst (gety py_exec False ''column1 - column0'' scenario_C module_ns) = Inl (UnboundLocalError ''y'')
   \<and> snd (gety py_exec False ''column1 - column0'' scenario_C module_ns) ''y''
       = Some (Arr [Fin 3, Fin 3, Fin 3])
   \<and> fst (gety py_exec True ''column1 - column0'' scenario_C module_ns) = Inl (UnboundLocalError ''y'')"
  by code_simp




text \<open>
  C8. When the expression is exactly a key of the table, the call returns the column
  stored under that key, whatever \<^verbatim>\<open>exec\<close> would do (it is never called), and leaves the
  module namespace as it was.
\<close>

theorem gety_exact_key:
  "map_of d s = Some c \<Longrightarrow> gety ex v s d G = (Inr (Lst c), G)"
  by (simp add: gety_def return_y_def)

theorem gety_exact_key_witness:
  "map_of (make_data [[Fin 1, Fin 3], [Fin 2, Fin 4]] [''x'', ''y'']) ''x'' = Some [Fin 1, Fin 3]
   \<and> gety py_exec False ''x'' (make_data [[Fin 1, Fin 3], [Fin 2, Fin 4]] [''x'', ''y'']) module_ns
       = (Inr (Lst [Fin 1, Fin 3]), module_ns)"
proof -
  have h: "map_of (make_data [[Fin 1, Fin 3], [Fin 2, Fin 4]] [''x'', ''y'']) ''x''
             = Some [Fin 1, Fin 3]"
    by code_simp
  from gety_exact_key [OF h] h show ?thesis by simp
qed




end
